theory Spec2Isabelle
  imports Complex_Main
begin

section \<open>Fixed-step ODE integrators of the notebook \<^verbatim>\<open>ODE_solver.ipynb\<close>\<close>

text \<open>
  The notebook defines a class \<^verbatim>\<open>SimplePendulum\<close> (constructor, \<^verbatim>\<open>rhs\<close>,
  \<^verbatim>\<open>integrate_euler\<close>) and three module-level drivers: \<^verbatim>\<open>integrate_RK2\<close>, a first
  \<^verbatim>\<open>integrate_RK4\<close> and a second, "more compact" \<^verbatim>\<open>integrate_RK4\<close> that shadows it.

  Numbers: Python's \<^verbatim>\<open>int\<close> and \<^verbatim>\<open>float\<close> values are modelled as exact reals, so every
  statement below is about the algorithm in exact arithmetic; rounding of IEEE doubles is
  not part of the model. Lists are HOL lists, \<^verbatim>\<open>xs.append(v)\<close> is \<open>xs @ [v]\<close> and
  \<^verbatim>\<open>xs[-1]\<close> is \<open>last xs\<close> (every list read this way starts with one element and only
  grows). \<^verbatim>\<open>np.array(xs)\<close> keeps the elements and their order, so it is the identity here.
  A raised exception is a value \<open>Inl e\<close>; a loop that does not stop is the value \<open>None\<close>.
\<close>

datatype error = AttributeError | TypeError | ValueError | ZeroDivisionError

subsection \<open>The pendulum\<close>

record SimplePendulum =
  theta0 :: real
  g :: real
  L :: real

definition radians :: "real \<Rightarrow> real" where
  \<comment> \<open>\<^verbatim>\<open>np.radians\<close>: degrees to radians.\<close>
  "radians x = x * (pi / 180)"

definition init :: "real \<Rightarrow> real \<Rightarrow> real \<Rightarrow> string \<Rightarrow> SimplePendulum" where
  \<comment> \<open>\<^verbatim>\<open>__init__(self, theta0, g=9.81, L=9.81, method="Euler")\<close>; \<^verbatim>\<open>method\<close> is not stored.\<close>
  "init theta0_deg g_arg L_arg method =
     \<lparr> theta0 = radians theta0_deg, g = g_arg, L = L_arg \<rparr>"

definition rhs :: "SimplePendulum \<Rightarrow> real \<Rightarrow> real \<Rightarrow> error + real list" where
  \<comment> \<open>\<^verbatim>\<open>np.array([omega, -(self.g / self.L) * np.sin(theta)])\<close>; the division of two
      Python floats raises when the divisor is zero.\<close>
  "rhs self theta omega =
     (if L self = 0 then Inl ZeroDivisionError
      else Inr [omega, - (g self / L self) * sin theta])"

definition rhs_call ::
  "SimplePendulum \<Rightarrow> real \<Rightarrow> real \<Rightarrow> (error + real list) \<times> SimplePendulum" where
  \<comment> \<open>The call \<^verbatim>\<open>self.rhs(theta, omega)\<close> as a step on the object, which Python passes
      by reference: the value returned and the object as the call leaves it. The body of
      \<^verbatim>\<open>rhs\<close> is one \<^verbatim>\<open>return\<close> statement; it reads \<^verbatim>\<open>self.g\<close> and \<^verbatim>\<open>self.L\<close> and assigns to
      no attribute.\<close>
  "rhs_call self theta omega = (rhs self theta omega, self)"

definition euler_body :: "SimplePendulum \<Rightarrow> real \<Rightarrow> real \<Rightarrow> real \<Rightarrow> error + real \<times> real" where
  \<comment> \<open>The body of the loop of \<^verbatim>\<open>integrate_euler\<close> up to the two new values. The
      tuple assignment \<^verbatim>\<open>thetadot, omegadot = self.rhs(theta, omega)\<close> needs exactly two
      components.\<close>
  "euler_body self dt theta omega =
     (case rhs self theta omega of
        Inl e \<Rightarrow> Inl e
      | Inr [thetadot, omegadot] \<Rightarrow>
          (let theta_new = theta + dt * thetadot;
               omega_new = omega + dt * omegadot
           in Inr (theta_new, omega_new))
      | Inr _ \<Rightarrow> Inl ValueError)"

partial_function (option) euler_loop ::
  "SimplePendulum \<Rightarrow> real \<Rightarrow> real \<Rightarrow> real \<Rightarrow> real list \<Rightarrow> real list \<Rightarrow> real list
     \<Rightarrow> (error + real list \<times> real list \<times> real list) option" where
  "euler_loop self dt tmax t t_s theta_s omega_s =
     (if t < tmax then
        (case euler_body self dt (last theta_s) (last omega_s) of
           Inl e \<Rightarrow> Some (Inl e)
         | Inr (theta_new, omega_new) \<Rightarrow>
             euler_loop self dt tmax (t + dt)
               (t_s @ [t + dt]) (theta_s @ [theta_new]) (omega_s @ [omega_new]))
      else Some (Inr (t_s, theta_s, omega_s)))"

definition integrate_euler ::
  "SimplePendulum \<Rightarrow> real \<Rightarrow> real \<Rightarrow> (error + real list \<times> real list \<times> real list) option" where
  "integrate_euler self dt tmax = euler_loop self dt tmax 0 [0] [theta0 self] [0]"

subsection \<open>Right-hand sides as the drivers reach them\<close>

text \<open>
  No driver contains its right-hand side. The compact \<^verbatim>\<open>integrate_RK4\<close> calls the
  module-level name \<^verbatim>\<open>rhs\<close> with one positional argument. The function bound to that
  name is a parameter of the model: a function of the state, or a function of the state
  and the time, which a call with one argument cannot run.
\<close>

datatype 'a pyfun = Fun1 "'a \<Rightarrow> 'a" | Fun2 "'a \<Rightarrow> real \<Rightarrow> 'a"

definition call1 :: "'a pyfun \<Rightarrow> 'a \<Rightarrow> error + 'a" where
  "call1 fn x = (case fn of Fun1 h \<Rightarrow> Inr (h x) | Fun2 h \<Rightarrow> Inl TypeError)"

text \<open>
  \<^verbatim>\<open>integrate_RK2\<close> and the first \<^verbatim>\<open>integrate_RK4\<close> write \<^verbatim>\<open>"insert_here".rhs(x)\<close>: the
  receiver is a string literal that stands where the object providing \<^verbatim>\<open>rhs\<close> is to be
  inserted. A receiver is either a Python \<^verbatim>\<open>str\<close>, which has no attribute \<^verbatim>\<open>rhs\<close>, or an
  object whose attribute \<^verbatim>\<open>rhs\<close> is bound to a function, called with one positional
  argument as above.
\<close>

datatype 'a receiver = PyStr string | PyObj "'a pyfun"

definition call_rhs :: "'a receiver \<Rightarrow> 'a \<Rightarrow> error + 'a" where
  "call_rhs recv x =
     (case recv of PyStr s \<Rightarrow> Inl AttributeError | PyObj fn \<Rightarrow> call1 fn x)"

subsection \<open>Loop bodies of the Runge-Kutta drivers\<close>

definition RK2_body :: "'a::real_vector receiver \<Rightarrow> 'a \<Rightarrow> real \<Rightarrow> error + 'a" where
  "RK2_body recv state_old tau =
     (case call_rhs recv state_old of
        Inl e \<Rightarrow> Inl e
      | Inr fdot \<Rightarrow>
          (let state_tmp = state_old + (0.5 * tau) *\<^sub>R fdot in
           case call_rhs recv state_tmp of
             Inl e \<Rightarrow> Inl e
           | Inr fdot \<Rightarrow> Inr (state_old + tau *\<^sub>R fdot)))"

definition RK4_v1_body :: "'a::real_vector receiver \<Rightarrow> 'a \<Rightarrow> real \<Rightarrow> error + 'a" where
  "RK4_v1_body recv state_old tau =
     (case call_rhs recv state_old of
        Inl e \<Rightarrow> Inl e
      | Inr k1 \<Rightarrow>
     (case call_rhs recv (state_old + (0.5 * tau) *\<^sub>R k1) of
        Inl e \<Rightarrow> Inl e
      | Inr k2 \<Rightarrow>
     (case call_rhs recv (state_old + (0.5 * tau) *\<^sub>R k2) of
        Inl e \<Rightarrow> Inl e
      | Inr k3 \<Rightarrow>
     (case call_rhs recv (state_old + tau *\<^sub>R k3) of
        Inl e \<Rightarrow> Inl e
      | Inr k4 \<Rightarrow>
          Inr (state_old + (tau / 6.0) *\<^sub>R (k1 + 2 *\<^sub>R k2 + 2 *\<^sub>R k3 + k4))))))"

definition RK4_body :: "'a::real_vector pyfun \<Rightarrow> 'a \<Rightarrow> real \<Rightarrow> error + 'a" where
  "RK4_body fn state_old tau =
     (case call1 fn state_old of
        Inl e \<Rightarrow> Inl e
      | Inr k1 \<Rightarrow>
     (case call1 fn (state_old + (0.5 * tau) *\<^sub>R k1) of
        Inl e \<Rightarrow> Inl e
      | Inr k2 \<Rightarrow>
     (case call1 fn (state_old + (0.5 * tau) *\<^sub>R k2) of
        Inl e \<Rightarrow> Inl e
      | Inr k3 \<Rightarrow>
     (case call1 fn (state_old + tau *\<^sub>R k3) of
        Inl e \<Rightarrow> Inl e
      | Inr k4 \<Rightarrow>
          Inr (state_old + (tau / 6.0) *\<^sub>R (k1 + 2 *\<^sub>R k2 + 2 *\<^sub>R k3 + k4))))))"

subsection \<open>The time-stepping loop of the Runge-Kutta drivers\<close>

text \<open>
  The three drivers repeat the same loop around their bodies:
  \<^verbatim>\<open>while t < T: state_old = history[-1]; if t + tau > T: tau = T - t; <body>; t += tau;
  times.append(t); history.append(state_new)\<close>. The assignment to \<^verbatim>\<open>tau\<close> lasts for the
  rest of the run, so \<open>tau\<close> is part of the loop state.
\<close>

partial_function (option) timestep_loop ::
  "('a \<Rightarrow> real \<Rightarrow> error + 'a) \<Rightarrow> real \<Rightarrow> real \<Rightarrow> real \<Rightarrow> real list \<Rightarrow> 'a list
     \<Rightarrow> (error + real list \<times> 'a list) option" where
  \<comment> \<open>\<open>tms\<close> is the list \<^verbatim>\<open>times\<close>.\<close>
  "timestep_loop body T tau t tms history =
     (if t < T then
        (let state_old = last history;
             tau = (if t + tau > T then T - t else tau)
         in case body state_old tau of
              Inl e \<Rightarrow> Some (Inl e)
            | Inr state_new \<Rightarrow>
                timestep_loop body T tau (t + tau) (tms @ [t + tau]) (history @ [state_new]))
      else Some (Inr (tms, history)))"

definition integrate_RK2 ::
  "'a::real_vector \<Rightarrow> real \<Rightarrow> real \<Rightarrow> (error + real list \<times> 'a list) option" where
  "integrate_RK2 state0 tau T =
     timestep_loop (RK2_body (PyStr ''insert_here'')) T tau 0 [0] [state0]"

definition integrate_RK4_v1 ::
  "'a::real_vector \<Rightarrow> real \<Rightarrow> real \<Rightarrow> (error + real list \<times> 'a list) option" where
  \<comment> \<open>The first definition of \<^verbatim>\<open>integrate_RK4\<close>.\<close>
  "integrate_RK4_v1 state0 tau T =
     timestep_loop (RK4_v1_body (PyStr ''insert_here'')) T tau 0 [0] [state0]"

definition integrate_RK4 ::
  "'a::real_vector pyfun \<Rightarrow> 'a \<Rightarrow> real \<Rightarrow> real \<Rightarrow> (error + real list \<times> 'a list) option" where
  \<comment> \<open>The compact definition of \<^verbatim>\<open>integrate_RK4\<close>; \<open>fn\<close> is what the global name
      \<^verbatim>\<open>rhs\<close> is bound to.\<close>
  "integrate_RK4 fn state0 tau T =
     timestep_loop (RK4_body fn) T tau 0 [0] [state0]"

subsection \<open>The recurrences as the specification words them\<close>

text \<open>
  The specification writes each stepper as a function of the state, the time, the step and
  a right-hand side that takes the state and the time. These definitions follow its words;
  the theorems below compare them with the loop bodies above.
\<close>

definition euler_step_spec ::
  "(real list \<Rightarrow> real \<Rightarrow> real list) \<Rightarrow> real list \<Rightarrow> real \<Rightarrow> real \<Rightarrow> real list" where
  \<comment> \<open>\<open>state' = state + \<tau> \<cdot> rhs(state, t)\<close>, componentwise on the state vector.\<close>
  "euler_step_spec f state t tau = map2 (+) state (map ((*) tau) (f state t))"


definition RK4_step_spec ::
  "('a::real_vector \<Rightarrow> real \<Rightarrow> 'a) \<Rightarrow> 'a \<Rightarrow> real \<Rightarrow> real \<Rightarrow> 'a" where
  "RK4_step_spec f state t tau =
     (let k1 = f state t;
          k2 = f (state + (tau / 2) *\<^sub>R k1) (t + tau / 2);
          k3 = f (state + (tau / 2) *\<^sub>R k2) (t + tau / 2);
          k4 = f (state + tau *\<^sub>R k3) (t + tau)
      in state + (tau / 6) *\<^sub>R (k1 + 2 *\<^sub>R k2 + 2 *\<^sub>R k3 + k4))"

definition pendulum_rhs_spec :: "real \<Rightarrow> real \<Rightarrow> real \<Rightarrow> real \<Rightarrow> real \<times> real" where
  \<comment> \<open>\<open>rhs(\<theta>, \<omega>) = (\<omega>, -(g/L)\<cdot>sin(\<theta>))\<close> for a gravitational constant and a length.\<close>
  "pendulum_rhs_spec g_const L_const theta omega = (omega, - ((g_const / L_const) * sin theta))"

definition pendulum_field :: "SimplePendulum \<Rightarrow> real list \<Rightarrow> real \<Rightarrow> real list" where
  \<comment> \<open>The pendulum's right-hand side \<open>(\<omega>, -(g/L) sin \<theta>)\<close> in the shape the specification
      gives a right-hand side: state vector \<open>[\<theta>, \<omega>]\<close> and a time, which it ignores.\<close>
  "pendulum_field self state t = [state ! 1, - (g self / L self) * sin (state ! 0)]"

section \<open>Properties of the loops\<close>

subsection \<open>Counting steps\<close>

lemma ceil_step:
  fixes T t tau :: real
  assumes "0 < tau" "Suc n = nat \<lceil>(T - t) / tau\<rceil>"
  shows "n = nat \<lceil>(T - (t + tau)) / tau\<rceil>"
proof -
  have "(T - (t + tau)) / tau = (T - t) / tau - 1"
    using assms(1) by (simp add: field_simps)
  then have "\<lceil>(T - (t + tau)) / tau\<rceil> = \<lceil>(T - t) / tau\<rceil> - 1"
    by simp
  with assms(2) show ?thesis by linarith
qed

lemma ceil_zero:
  fixes T t tau :: real
  assumes "0 < tau" "0 = nat \<lceil>(T - t) / tau\<rceil>"
  shows "T \<le> t"
proof -
  from assms(2) have "\<lceil>(T - t) / tau\<rceil> \<le> 0" by simp
  then have "(T - t) / tau \<le> 0" by (simp add: ceiling_le_iff)
  with assms(1) show ?thesis by (simp add: field_simps)
qed

lemma ceil_pos:
  fixes T t tau :: real
  assumes "0 < tau" "Suc n = nat \<lceil>(T - t) / tau\<rceil>"
  shows "t < T"
proof -
  from assms(2) have "0 < \<lceil>(T - t) / tau\<rceil>" by linarith
  then have "0 < (T - t) / tau" by (simp add: less_ceiling_iff)
  with assms(1) show ?thesis by (simp add: field_simps)
qed

lemma euler_body_ok:
  "L self \<noteq> 0 \<Longrightarrow>
   euler_body self dt theta omega =
     Inr (theta + dt * omega, omega + dt * (- (g self / L self) * sin theta))"
  by (simp add: euler_body_def rhs_def)

lemma euler_loop_run:
  assumes "0 < dt" "L self \<noteq> 0"
  shows "\<exists>ts ths oms. euler_loop self dt tmax t t_s theta_s omega_s
                   = Some (Inr (t_s @ ts, theta_s @ ths, omega_s @ oms))
     \<and> length ts = nat \<lceil>(tmax - t) / dt\<rceil> \<and> length ths = length ts \<and> length oms = length ts
     \<and> sorted_wrt (<) ts \<and> (\<forall>x\<in>set ts. t < x \<and> x < tmax + dt)
     \<and> (t < tmax \<longrightarrow> last ts = t + real (nat \<lceil>(tmax - t) / dt\<rceil>) * dt)"
proof (induction "nat \<lceil>(tmax - t) / dt\<rceil>" arbitrary: t t_s theta_s omega_s)
  case 0
  then have "tmax \<le> t" using assms(1) ceil_zero by blast
  then have "euler_loop self dt tmax t t_s theta_s omega_s
             = Some (Inr (t_s @ [], theta_s @ [], omega_s @ []))"
    by (subst euler_loop.simps) simp
  with 0 \<open>tmax \<le> t\<close> show ?case by fastforce
next
  case (Suc n)
  then have lt: "t < tmax" using assms(1) ceil_pos by blast
  have n: "n = nat \<lceil>(tmax - (t + dt)) / dt\<rceil>"
    using assms(1) Suc.hyps(2) by (rule ceil_step)
  define th where "th = last theta_s + dt * last omega_s"
  define om where "om = last omega_s + dt * (- (g self / L self) * sin (last theta_s))"
  have b: "euler_body self dt (last theta_s) (last omega_s) = Inr (th, om)"
    using assms(2) by (simp add: euler_body_ok th_def om_def)
  obtain ts ths oms where r:
    "euler_loop self dt tmax (t + dt) (t_s @ [t + dt]) (theta_s @ [th]) (omega_s @ [om])
      = Some (Inr ((t_s @ [t + dt]) @ ts, (theta_s @ [th]) @ ths, (omega_s @ [om]) @ oms))"
    "length ts = nat \<lceil>(tmax - (t + dt)) / dt\<rceil>" "length ths = length ts"
    "length oms = length ts"
    "sorted_wrt (<) ts" "\<forall>x\<in>set ts. t + dt < x \<and> x < tmax + dt"
    "t + dt < tmax \<longrightarrow> last ts = t + dt + real (nat \<lceil>(tmax - (t + dt)) / dt\<rceil>) * dt"
    using Suc.hyps(1)[OF n] by blast
  have "euler_loop self dt tmax t t_s theta_s omega_s
        = euler_loop self dt tmax (t + dt) (t_s @ [t + dt]) (theta_s @ [th]) (omega_s @ [om])"
    using lt b by (subst euler_loop.simps) simp
  with r(1) have e: "euler_loop self dt tmax t t_s theta_s omega_s
        = Some (Inr (t_s @ ((t + dt) # ts), theta_s @ (th # ths), omega_s @ (om # oms)))"
    by simp
  have len: "length ((t + dt) # ts) = nat \<lceil>(tmax - t) / dt\<rceil>"
    using r(2) n Suc.hyps(2) by simp
  have srt: "sorted_wrt (<) ((t + dt) # ts)"
    using r(5,6) by simp
  have bnd: "\<forall>x\<in>set ((t + dt) # ts). t < x \<and> x < tmax + dt"
    using r(6) assms(1) lt by auto
  have lst: "last ((t + dt) # ts) = t + real (nat \<lceil>(tmax - t) / dt\<rceil>) * dt"
  proof (cases "t + dt < tmax")
    case True
    then have "ts \<noteq> []" using r(2) assms(1)
      by (metis ceil_zero length_0_conv not_le)
    then have "last ((t + dt) # ts) = t + dt + real n * dt"
      using r(7) True n by simp
    also have "\<dots> = t + real (Suc n) * dt" by (simp add: algebra_simps)
    finally show ?thesis using Suc.hyps(2) by simp
  next
    case False
    then have "(tmax - (t + dt)) / dt \<le> 0" using assms(1) by (simp add: field_simps)
    then have "\<lceil>(tmax - (t + dt)) / dt\<rceil> \<le> 0" by (simp add: ceiling_le_iff)
    then have "n = 0" using n by simp
    then have "ts = []" using r(2) n by simp
    then show ?thesis using Suc.hyps(2)[symmetric] \<open>n = 0\<close> by simp
  qed
  show ?case using e len srt bnd lst r(3,4)
    by (intro exI[of _ "(t + dt) # ts"] exI[of _ "th # ths"] exI[of _ "om # oms"]) simp
qed

subsection \<open>Runs that do not return\<close>

lemma timestep_loop_Some_cases:
  assumes "timestep_loop body T tau t tms history = Some y"
  shows "0 < tau \<or> T \<le> t \<or> (\<exists>s h e. body s h = Inl e)"
proof -
  have "\<not> (tau \<le> 0 \<and> t < T \<and> (\<forall>s h. \<exists>v. body s h = Inr v))"
  proof (rule timestep_loop.raw_induct
      [where P = "\<lambda>body T tau t tms history y.
                    \<not> (tau \<le> 0 \<and> t < T \<and> (\<forall>s h. \<exists>v. body s h = Inr v))", OF _ assms])
    fix loop :: "('a \<Rightarrow> real \<Rightarrow> error + 'a) \<Rightarrow> real \<Rightarrow> real \<Rightarrow> real \<Rightarrow> real list \<Rightarrow> 'a list
       \<Rightarrow> (error + real list \<times> 'a list) option"
    fix body T tau t tms history y
    assume IH: "\<And>body T tau t tms history y. loop body T tau t tms history = Some y \<Longrightarrow>
                 \<not> (tau \<le> 0 \<and> t < T \<and> (\<forall>s h. \<exists>v. body s h = Inr v))"
    assume step: "(if t < T
      then let state_old = last history;
               tau = if T < t + tau then T - t else tau
           in case body state_old tau of Inl e \<Rightarrow> Some (Inl e)
              | Inr state_new \<Rightarrow>
                  loop body T tau (t + tau) (tms @ [t + tau]) (history @ [state_new])
      else Some (Inr (tms, history))) = Some y"
    show "\<not> (tau \<le> 0 \<and> t < T \<and> (\<forall>s h. \<exists>v. body s h = Inr v))"
    proof
      assume a: "tau \<le> 0 \<and> t < T \<and> (\<forall>s h. \<exists>v. body s h = Inr v)"
      then obtain v where v: "body (last history) tau = Inr v" by blast
      from a have "\<not> T < t + tau" by simp
      with a v step
      have "loop body T tau (t + tau) (tms @ [t + tau]) (history @ [v]) = Some y"
        by (simp add: Let_def)
      from IH[OF this] a show False by simp
    qed
  qed
  then show ?thesis
    by (metis not_le sum.exhaust)
qed

lemma timestep_loop_never_returns:
  assumes "tau \<le> 0" "t < T" "\<forall>s h. \<exists>v. body s h = Inr v"
  shows "timestep_loop body T tau t tms history = None"
proof (cases "timestep_loop body T tau t tms history")
  case None
  then show ?thesis .
next
  case (Some y)
  from timestep_loop_Some_cases[OF this]
  have "0 < tau \<or> T \<le> t \<or> (\<exists>s h e. body s h = Inl e)" .
  moreover have "\<not> (\<exists>s h e. body s h = Inl e)"
    using assms(3) by (metis Inl_Inr_False)
  ultimately have False using assms(1,2) by auto
  then show ?thesis ..
qed

lemma euler_loop_Some_cases:
  assumes "euler_loop self dt tmax t t_s theta_s omega_s = Some y"
  shows "0 < dt \<or> tmax \<le> t \<or> L self = 0"
proof -
  have "\<not> (dt \<le> 0 \<and> t < tmax \<and> L self \<noteq> 0)"
  proof (rule euler_loop.raw_induct
      [where P = "\<lambda>self dt tmax t t_s theta_s omega_s y.
                    \<not> (dt \<le> 0 \<and> t < tmax \<and> L self \<noteq> 0)", OF _ assms])
    fix loop :: "SimplePendulum \<Rightarrow> real \<Rightarrow> real \<Rightarrow> real \<Rightarrow> real list \<Rightarrow> real list \<Rightarrow> real list
       \<Rightarrow> (error + real list \<times> real list \<times> real list) option"
    fix self dt tmax t t_s theta_s omega_s y
    assume IH: "\<And>self dt tmax t t_s theta_s omega_s y.
                 loop self dt tmax t t_s theta_s omega_s = Some y \<Longrightarrow>
                 \<not> (dt \<le> 0 \<and> t < tmax \<and> L self \<noteq> 0)"
    assume step: "(if t < tmax
      then case euler_body self dt (last theta_s) (last omega_s) of
             Inl e \<Rightarrow> Some (Inl e)
           | Inr (theta_new, omega_new) \<Rightarrow>
               loop self dt tmax (t + dt) (t_s @ [t + dt]) (theta_s @ [theta_new])
                 (omega_s @ [omega_new])
      else Some (Inr (t_s, theta_s, omega_s))) = Some y"
    show "\<not> (dt \<le> 0 \<and> t < tmax \<and> L self \<noteq> 0)"
    proof
      assume a: "dt \<le> 0 \<and> t < tmax \<and> L self \<noteq> 0"
      define th where "th = last theta_s + dt * last omega_s"
      define om where "om = last omega_s + dt * (- (g self / L self) * sin (last theta_s))"
      have "euler_body self dt (last theta_s) (last omega_s) = Inr (th, om)"
        using a by (simp add: euler_body_def rhs_def th_def om_def)
      with a step
      have "loop self dt tmax (t + dt) (t_s @ [t + dt]) (theta_s @ [th]) (omega_s @ [om]) = Some y"
        by simp
      from IH[OF this] a show False by simp
    qed
  qed
  then show ?thesis by linarith
qed

subsection \<open>Bodies that always fail, loops that are not entered\<close>

lemma call_rhs_str: "call_rhs (PyStr s) x = Inl AttributeError"
  by (simp add: call_rhs_def)

lemma RK2_body_str: "RK2_body (PyStr s) state_old tau = Inl AttributeError"
  by (simp add: RK2_body_def call_rhs_str)

lemma RK4_v1_body_str: "RK4_v1_body (PyStr s) state_old tau = Inl AttributeError"
  by (simp add: RK4_v1_body_def call_rhs_str)

lemma RK4_body_Fun2: "RK4_body (Fun2 f) state_old tau = Inl TypeError"
  by (simp add: RK4_body_def call1_def)


lemma timestep_loop_failing_body:
  assumes "\<And>s h. body s h = Inl e"
  shows "timestep_loop body T tau t tms history =
           (if t < T then Some (Inl e) else Some (Inr (tms, history)))"
  by (subst timestep_loop.simps) (simp add: assms Let_def)

lemma timestep_loop_not_entered:
  "T \<le> t \<Longrightarrow> timestep_loop body T tau t tms history = Some (Inr (tms, history))"
  by (subst timestep_loop.simps) simp

lemma euler_loop_not_entered:
  "tmax \<le> t \<Longrightarrow> euler_loop self dt tmax t t_s theta_s omega_s
                    = Some (Inr (t_s, theta_s, omega_s))"
  by (subst euler_loop.simps) simp

subsection \<open>Bodies that succeed\<close>

lemma RK4_body_Fun1:
  "RK4_body (Fun1 f) state_old tau = Inr (RK4_step_spec (\<lambda>s t. f s) state_old t tau)"
  by (simp add: RK4_body_def call1_def RK4_step_spec_def Let_def)


lemma euler_loop_never_returns:
  assumes "dt \<le> 0" "t < tmax" "L self \<noteq> 0"
  shows "euler_loop self dt tmax t t_s theta_s omega_s = None"
proof (cases "euler_loop self dt tmax t t_s theta_s omega_s")
  case None
  then show ?thesis .
next
  case (Some r)
  from euler_loop_Some_cases [OF this] assms have False by auto
  then show ?thesis ..
qed

subsection \<open>Whole runs from the initial entry\<close>

lemma integrate_euler_run:
  assumes "0 < dt" "L self \<noteq> 0"
  shows "\<exists>ts ths oms. integrate_euler self dt tmax
                   = Some (Inr (0 # ts, theta0 self # ths, 0 # oms))
     \<and> length ts = nat \<lceil>tmax / dt\<rceil> \<and> length ths = length ts \<and> length oms = length ts
     \<and> sorted_wrt (<) ts \<and> (\<forall>x\<in>set ts. 0 < x \<and> x < tmax + dt)
     \<and> (0 < tmax \<longrightarrow> last ts = real (nat \<lceil>tmax / dt\<rceil>) * dt)"
  using euler_loop_run [OF assms, of tmax 0 "[0]" "[theta0 self]" "[0]"]
  unfolding integrate_euler_def by simp

subsection \<open>The decay scenario: ten steps of the compact driver on \<open>y' = -y\<close>\<close>

lemma RK4_decay_body:
  "RK4_body (Fun1 uminus) (y::real) (1/10) = Inr (72387/80000 * y)"
  by (simp add: RK4_body_def call1_def algebra_simps)

lemma RK4_decay_run:
  "integrate_RK4 (Fun1 uminus) (1::real) (1/10) 1
   = Some (Inr ([0, 1/10, 1/5, 3/10, 2/5, 1/2, 3/5, 7/10, 4/5, 9/10, 1],
                [1, 72387/80000, (72387/80000)^2, (72387/80000)^3, (72387/80000)^4,
                 (72387/80000)^5, (72387/80000)^6, (72387/80000)^7, (72387/80000)^8,
                 (72387/80000)^9, (72387/80000)^10]))"
  unfolding integrate_RK4_def
  apply (subst timestep_loop.simps, simp add: RK4_decay_body)
  apply (subst timestep_loop.simps, simp add: RK4_decay_body)
  apply (subst timestep_loop.simps, simp add: RK4_decay_body)
  apply (subst timestep_loop.simps, simp add: RK4_decay_body)
  apply (subst timestep_loop.simps, simp add: RK4_decay_body)
  apply (subst timestep_loop.simps, simp add: RK4_decay_body)
  apply (subst timestep_loop.simps, simp add: RK4_decay_body)
  apply (subst timestep_loop.simps, simp add: RK4_decay_body)
  apply (subst timestep_loop.simps, simp add: RK4_decay_body)
  apply (subst timestep_loop.simps, simp add: RK4_decay_body)
  apply (subst timestep_loop.simps, simp add: power_divide)
  done

lemma exp_minus_one_bounds:
  "367879/1000000 < exp (-1::real) \<and> exp (-1::real) < 367881/1000000"
proof -
  obtain t :: real where t: "\<bar>t\<bar> \<le> \<bar>-1::real\<bar>"
    "exp (-1::real) = (\<Sum>m<10. ((-1) ^ m) / fact m) + exp t / fact 10 * (-1) ^ 10"
    using Maclaurin_exp_le [of "-1::real" 10] by blast
  have s: "(\<Sum>m<10. ((-1::real) ^ m) / fact m) = 16687/45360"
    by (simp add: lessThan_nat_numeral lessThan_Suc fact_numeral eval_nat_numeral)
  have "t \<le> 1" using t(1) by simp
  then have "exp t \<le> exp 1" by simp
  also have "\<dots> \<le> 3" by (rule exp_le)
  finally have e: "exp t \<le> 3" .
  have p: "0 < exp t" by simp
  have f: "fact 10 = (3628800::real)" by (simp add: fact_numeral)
  define r where "r = exp t / 3628800"
  have d: "exp (-1::real) = 16687/45360 + r"
    using t(2) s f by (simp add: r_def)
  have "0 < r" using p by (simp add: r_def)
  moreover have "r \<le> 3 / 3628800"
    unfolding r_def using e by (rule divide_right_mono) simp
  ultimately show ?thesis unfolding d by linarith
qed

lemma RK4_decay_close:
  "\<bar>(72387/80000)^10 - exp (-1::real)\<bar> < 1/100000"
proof -
  have "367879/1000000 < (72387/80000::real)^10" "(72387/80000::real)^10 < 367881/1000000"
    by (simp_all add: power_divide)
  with exp_minus_one_bounds show ?thesis
    unfolding abs_less_iff by linarith
qed

subsection \<open>Bounds on \<open>\<pi>\<close> from the cosine series\<close>

lemma sum_lessThan_10:
  fixes h :: "nat \<Rightarrow> real"
  shows "(\<Sum>m<10. h m) = h 0 + h 1 + h 2 + h 3 + h 4 + h 5 + h 6 + h 7 + h 8 + h 9"
  by (simp add: eval_nat_numeral)

lemma cos_coeff_values:
  "cos_coeff 0 = 1" "cos_coeff 1 = 0" "cos_coeff 2 = - 1/2" "cos_coeff 3 = 0"
  "cos_coeff 4 = 1/24" "cos_coeff 5 = 0" "cos_coeff 6 = - 1/720" "cos_coeff 7 = 0"
  "cos_coeff 8 = 1/40320" "cos_coeff 9 = 0"
  by (simp_all add: cos_coeff_def fact_numeral)

lemma cos_Maclaurin_10:
  fixes x :: real
  shows "\<bar>cos x - (1 - x^2/2 + x^4/24 - x^6/720 + x^8/40320)\<bar> \<le> \<bar>x\<bar>^10 / 3628800"
proof -
  obtain t :: real where
    t: "cos x = (\<Sum>m<10. cos_coeff m * x ^ m) + (cos (t + 1/2 * real (10::nat) * pi) / fact 10) * x ^ 10"
    using Maclaurin_cos_expansion [of x 10] by blast
  have s: "(\<Sum>m<10. cos_coeff m * x ^ m) = 1 - x^2/2 + x^4/24 - x^6/720 + x^8/40320"
    unfolding sum_lessThan_10 cos_coeff_values by simp
  have f: "fact 10 = (3628800::real)" by (simp add: fact_numeral)
  define c where "c = cos (t + 1/2 * real (10::nat) * pi)"
  have c: "\<bar>c\<bar> \<le> 1" unfolding c_def by (rule abs_cos_le_one)
  define S where "S = 1 - x^2/2 + x^4/24 - x^6/720 + x^8/40320"
  have e: "cos x - S = c * x^10 / 3628800"
    using t s f by (simp add: c_def S_def)
  have "\<bar>cos x - S\<bar> = \<bar>c * x^10 / 3628800\<bar>"
    by (simp only: e)
  also have "\<dots> = \<bar>c\<bar> * \<bar>x\<bar>^10 / 3628800"
    by (simp add: abs_mult power_abs)
  also have "\<dots> \<le> 1 * \<bar>x\<bar>^10 / 3628800"
    using c by (intro divide_right_mono mult_right_mono) simp_all
  finally show ?thesis unfolding S_def by simp
qed

lemma pos_from_approx: "\<bar>c - s\<bar> \<le> r \<Longrightarrow> 0 < s - r \<Longrightarrow> 0 < (c::real)"
  by linarith

lemma neg_from_approx: "\<bar>c - s\<bar> \<le> r \<Longrightarrow> s + r < 0 \<Longrightarrow> (c::real) < 0"
  by linarith

lemma pi_bounds: "31402/10000 < pi \<and> pi < 31419/10000"
proof
  have pos: "0 < cos (15701/10000 :: real)"
    by (rule pos_from_approx [OF cos_Maclaurin_10]) (simp add: power_divide)
  have "15701/10000 < pi / 2"
  proof (rule ccontr)
    assume "\<not> 15701/10000 < pi / 2"
    then have "pi / 2 \<le> 15701/10000" by simp
    moreover have "15701/10000 \<le> pi" using pi_ge_two by simp
    ultimately have "cos (15701/10000) \<le> cos (pi / 2)"
      by (intro cos_monotone_0_pi_le) simp_all
    with pos show False by simp
  qed
  then show "31402/10000 < pi" by simp
next
  have neg: "cos (31419/20000 :: real) < 0"
    by (rule neg_from_approx [OF cos_Maclaurin_10]) (simp add: power_divide)
  have "pi / 2 < 31419/20000"
  proof (rule ccontr)
    assume "\<not> pi / 2 < 31419/20000"
    then have "31419/20000 \<le> pi / 2" by simp
    moreover have "- (pi / 2) \<le> 31419/20000"
      using pi_ge_zero by linarith
    ultimately have "0 \<le> cos (31419/20000 :: real)" by (intro cos_ge_zero)
    with neg show False by simp
  qed
  then show "pi < 31419/10000" by simp
qed

lemma radians_10: "\<bar>radians 10 - 1745/10000\<bar> < 5/100000"
  using pi_bounds unfolding radians_def abs_less_iff by linarith

section \<open>The claims\<close>

subsection \<open>The pendulum's right-hand side and the Euler step\<close>

text \<open>
  C8. For a pendulum built with a length \<open>L \<noteq> 0\<close> (where \<open>g/L\<close> is defined; with \<open>L = 0\<close>
  the division raises), and for every \<open>\<theta>\<close> and \<open>\<omega>\<close>: \<^verbatim>\<open>rhs(theta, omega)\<close> returns the
  vector \<open>(\<omega>, -(g/L)\<cdot>sin \<theta>)\<close> of the specification, with the \<open>g\<close> and \<open>L\<close> given to the
  constructor; the vector has as many components as the state \<open>(\<theta>, \<omega>)\<close>, two. The call
  is pure: it leaves the object as it found it, every attribute included, and a second
  call with the same arguments, on the object the first call left, returns the same
  vector.
\<close>

theorem rhs_pendulum:
  assumes "L_arg \<noteq> 0"
  shows "rhs (init theta0_deg g_arg L_arg method) theta omega
           = Inr [fst (pendulum_rhs_spec g_arg L_arg theta omega),
                  snd (pendulum_rhs_spec g_arg L_arg theta omega)]
       \<and> rhs (init theta0_deg g_arg L_arg method) theta omega
           = Inr [omega, - ((g_arg / L_arg) * sin theta)]
       \<and> (\<exists>v. fst (rhs_call (init theta0_deg g_arg L_arg method) theta omega) = Inr v
              \<and> length v = length [theta, omega] \<and> length v = 2)
       \<and> snd (rhs_call (init theta0_deg g_arg L_arg method) theta omega)
           = init theta0_deg g_arg L_arg method
       \<and> fst (rhs_call (snd (rhs_call (init theta0_deg g_arg L_arg method) theta omega))
                 theta omega)
           = fst (rhs_call (init theta0_deg g_arg L_arg method) theta omega)"
proof -
  let ?p = "init theta0_deg g_arg L_arg method"
  have v: "rhs ?p theta omega = Inr [omega, - ((g_arg / L_arg) * sin theta)]"
    using assms by (simp add: rhs_def init_def)
  have s: "pendulum_rhs_spec g_arg L_arg theta omega
             = (omega, - ((g_arg / L_arg) * sin theta))"
    by (simp add: pendulum_rhs_spec_def)
  have o: "snd (rhs_call ?p theta omega) = ?p"
    by (simp add: rhs_call_def)
  have f: "fst (rhs_call ?p theta omega) = rhs ?p theta omega"
    by (simp add: rhs_call_def)
  from v s o f show ?thesis by simp
qed

theorem rhs_pendulum_witness:
  "(2::real) \<noteq> 0
   \<and> rhs (init 10 (981/100) 2 ''Euler'') (pi / 2) 3 = Inr [3, - (981/200)]
   \<and> rhs_call (init 10 (981/100) 2 ''Euler'') (pi / 2) 3
       = (Inr [3, - (981/200)], init 10 (981/100) 2 ''Euler'')"
  using rhs_pendulum [of 2 10 "981/100" "''Euler''" "pi / 2" 3]
  by (simp add: rhs_call_def pendulum_rhs_spec_def)

text \<open>
  C5. One pass through the body of the loop of \<^verbatim>\<open>integrate_euler\<close>, on a pendulum with
  \<open>L \<noteq> 0\<close>, turns \<open>(\<theta>, \<omega>)\<close> into \<open>(\<theta> + dt \<cdot> \<omega>, \<omega> + dt \<cdot> (-(g/L) sin \<theta>))\<close>. This is the
  specification's Euler step \<open>state + \<tau> \<cdot> rhs(state, t)\<close>, taken componentwise, for the
  pendulum's right-hand side (which does not use the time \<open>t\<close>), and an iteration of the
  loop appends exactly these two values and the time \<open>t + dt\<close>.
\<close>

theorem euler_step:
  assumes "L self \<noteq> 0"
  shows "euler_body self dt theta omega
           = Inr (theta + dt * omega, omega + dt * (- (g self / L self) * sin theta))
       \<and> euler_step_spec (pendulum_field self) [theta, omega] t dt
           = [theta + dt * omega, omega + dt * (- (g self / L self) * sin theta)]
       \<and> rhs self theta omega = Inr (pendulum_field self [theta, omega] t)
       \<and> (t < tmax \<longrightarrow>
            euler_loop self dt tmax t t_s (theta_s @ [theta]) (omega_s @ [omega])
            = euler_loop self dt tmax (t + dt) (t_s @ [t + dt])
                (theta_s @ [theta, theta + dt * omega])
                (omega_s @ [omega, omega + dt * (- (g self / L self) * sin theta)]))"
proof -
  have b: "euler_body self dt theta omega
           = Inr (theta + dt * omega, omega + dt * (- (g self / L self) * sin theta))"
    using assms by (rule euler_body_ok)
  have s: "euler_step_spec (pendulum_field self) [theta, omega] t dt
           = [theta + dt * omega, omega + dt * (- (g self / L self) * sin theta)]"
    by (simp add: euler_step_spec_def pendulum_field_def)
  have r: "rhs self theta omega = Inr (pendulum_field self [theta, omega] t)"
    using assms by (simp add: rhs_def pendulum_field_def)
  have l: "euler_loop self dt tmax t t_s (theta_s @ [theta]) (omega_s @ [omega])
            = euler_loop self dt tmax (t + dt) (t_s @ [t + dt])
                (theta_s @ [theta, theta + dt * omega])
                (omega_s @ [omega, omega + dt * (- (g self / L self) * sin theta)])"
    if "t < tmax"
    using that b by (subst euler_loop.simps) simp
  from b s r l show ?thesis by blast
qed

theorem euler_step_witness:
  "L (init 10 (981/100) (981/100) ''Euler'') \<noteq> 0 \<and> (0::real) < 1
   \<and> euler_body (init 10 (981/100) (981/100) ''Euler'') (1/10) 0 1 = Inr (1/10, 1)
   \<and> euler_step_spec (pendulum_field (init 10 (981/100) (981/100) ''Euler'')) [0, 1] 0 (1/10)
       = [1/10, 1]
   \<and> euler_loop (init 10 (981/100) (981/100) ''Euler'') (1/10) 1 0 [0] [0] [1]
       = euler_loop (init 10 (981/100) (981/100) ''Euler'') (1/10) 1 (1/10)
           [0, 1/10] [0, 1/10] [1, 1]"
  using euler_step [of "init 10 (981/100) (981/100) ''Euler''" "1/10" 0 1 0 1 "[0]" "[]" "[]"]
  by (simp add: init_def)

subsection \<open>The drivers written around a placeholder\<close>

text \<open>
  C10. \<^verbatim>\<open>integrate_RK2\<close> and the first \<^verbatim>\<open>integrate_RK4\<close> evaluate
  \<^verbatim>\<open>"insert_here".rhs(state_old)\<close> in their first iteration, an attribute that a string
  does not have. So for every initial state and every \<open>\<tau>\<close>: when \<open>T > 0\<close> the call ends
  with \<^verbatim>\<open>AttributeError\<close> and nothing is returned, and when \<open>T \<le> 0\<close> the loop is not
  entered and the call returns the initial entry alone. The drivers return normally
  exactly when \<open>T \<le> 0\<close>.
\<close>

theorem placeholder_drivers_fail:
  fixes state0 :: "'a::real_vector"
  shows "integrate_RK2 state0 tau T =
           (if 0 < T then Some (Inl AttributeError) else Some (Inr ([0], [state0])))
       \<and> integrate_RK4_v1 state0 tau T =
           (if 0 < T then Some (Inl AttributeError) else Some (Inr ([0], [state0])))"
  unfolding integrate_RK2_def integrate_RK4_v1_def
  by (simp add: timestep_loop_failing_body [where e = AttributeError]
        RK2_body_str RK4_v1_body_str)

theorem placeholder_drivers_fail_witness:
  "integrate_RK2 (1::real) (1/10) 1 = Some (Inl AttributeError)
   \<and> integrate_RK4_v1 (1::real) (1/10) 1 = Some (Inl AttributeError)
   \<and> integrate_RK2 (1::real) (1/10) 0 = Some (Inr ([0], [1]))
   \<and> integrate_RK4_v1 (1::real) (1/10) (-1) = Some (Inr ([0], [1]))"
  using placeholder_drivers_fail [of "1::real" "1/10" 1]
        placeholder_drivers_fail [of "1::real" "1/10" 0]
        placeholder_drivers_fail [of "1::real" "1/10" "-1"]
  by simp

subsection \<open>The Runge-Kutta steps\<close>

text \<open>
  C3, as the claim words it, fails: the claim lets the right-hand side take the state and
  the time, and the loop body of the compact \<^verbatim>\<open>integrate_RK4\<close> calls \<^verbatim>\<open>rhs\<close> with the state
  alone. With the function \<open>rhs(y, t) = y + t\<close> bound to the name, the first call
  \<^verbatim>\<open>rhs(state_old)\<close> lacks an argument and raises, so the body is not the recurrence.
\<close>

theorem RK4_time_argument_counterexample:
  "RK4_body (Fun2 (+)) (0::real) 1 \<noteq> Inr (RK4_step_spec (+) 0 0 1)"
  by (simp add: RK4_body_Fun2)

text \<open>
  C3, amended. For every state, step \<open>\<tau>\<close> and right-hand side \<open>f\<close> of the state alone, the
  loop body of the compact \<^verbatim>\<open>integrate_RK4\<close> computes \<open>k1 = f(state)\<close>,
  \<open>k2 = f(state + (\<tau>/2) k1)\<close>, \<open>k3 = f(state + (\<tau>/2) k2)\<close>, \<open>k4 = f(state + \<tau> k3)\<close> and
  the new state \<open>state + (\<tau>/6)(k1 + 2 k2 + 2 k3 + k4)\<close>: the specification's recurrence
  for a right-hand side that ignores the time, at any time \<open>t\<close>. An iteration of the loop
  appends this state, for the step \<open>h\<close> it has chosen. A right-hand side that needs the
  time as a second argument makes the body raise \<^verbatim>\<open>TypeError\<close>.
\<close>

theorem RK4_step:
  fixes state :: "'a::real_vector"
  shows "RK4_body (Fun1 f) state tau = Inr (RK4_step_spec (\<lambda>s t. f s) state t tau)
       \<and> RK4_step_spec (\<lambda>s t. f s) state t tau
           = state + (tau / 6) *\<^sub>R
               (f state
                + 2 *\<^sub>R f (state + (tau / 2) *\<^sub>R f state)
                + 2 *\<^sub>R f (state + (tau / 2) *\<^sub>R f (state + (tau / 2) *\<^sub>R f state))
                + f (state + tau *\<^sub>R
                       f (state + (tau / 2) *\<^sub>R f (state + (tau / 2) *\<^sub>R f state))))
       \<and> RK4_body (Fun2 f2) state tau = Inl TypeError
       \<and> (t < T \<longrightarrow>
            timestep_loop (RK4_body (Fun1 f)) T tau t tms (history @ [state])
            = (let h = (if T < t + tau then T - t else tau)
               in timestep_loop (RK4_body (Fun1 f)) T h (t + h) (tms @ [t + h])
                    (history @ [state, RK4_step_spec (\<lambda>s t. f s) state t h])))"
proof -
  have l: "timestep_loop (RK4_body (Fun1 f)) T tau t tms (history @ [state])
            = (let h = (if T < t + tau then T - t else tau)
               in timestep_loop (RK4_body (Fun1 f)) T h (t + h) (tms @ [t + h])
                    (history @ [state, RK4_step_spec (\<lambda>s t. f s) state t h]))"
    if "t < T"
    using that by (subst timestep_loop.simps) (simp add: Let_def RK4_body_Fun1 [where t = t])
  have e: "RK4_step_spec (\<lambda>s t. f s) state t tau
           = state + (tau / 6) *\<^sub>R
               (f state
                + 2 *\<^sub>R f (state + (tau / 2) *\<^sub>R f state)
                + 2 *\<^sub>R f (state + (tau / 2) *\<^sub>R f (state + (tau / 2) *\<^sub>R f state))
                + f (state + tau *\<^sub>R
                       f (state + (tau / 2) *\<^sub>R f (state + (tau / 2) *\<^sub>R f state))))"
    by (simp add: RK4_step_spec_def Let_def)
  from l e RK4_body_Fun1 [of f state tau t] RK4_body_Fun2 [of f2 state tau]
  show ?thesis by blast
qed

theorem RK4_step_witness:
  "(0::real) < 1
   \<and> RK4_body (Fun1 uminus) (1::real) (1/10) = Inr (72387/80000)
   \<and> timestep_loop (RK4_body (Fun1 uminus)) 1 (1/10) 0 [0] [1::real]
       = timestep_loop (RK4_body (Fun1 uminus)) 1 (1/10) (1/10) [0, 1/10] [1, 72387/80000]"
  using RK4_step [where f = uminus and state = "1::real" and tau = "1/10" and t = 0 and T = 1
                     and tms = "[0]" and history = "[]"]
  by (simp add: RK4_step_spec_def Let_def)




subsection \<open>Parameters are not validated\<close>

text \<open>
  C2, as the claim words it, fails: no driver rejects \<open>\<tau> \<le> 0\<close> or \<open>T \<le> 0\<close>. Calls with
  such parameters return normally.
\<close>

theorem no_rejection_counterexample:
  "integrate_RK2 (1::real) (-1) 0 = Some (Inr ([0], [1]))
   \<and> integrate_RK4 (Fun1 uminus) (1::real) 0 (-1) = Some (Inr ([0], [1]))
   \<and> integrate_euler (init 10 (981/100) (981/100) ''Euler'') (-1) 0
       = Some (Inr ([0], [radians 10], [0]))"
  by (simp add: integrate_RK2_def integrate_RK4_def integrate_euler_def
        timestep_loop_not_entered euler_loop_not_entered init_def)

text \<open>
  C2, amended. No driver checks its parameters. With \<open>T \<le> 0\<close> the loop is not entered
  and every driver returns the initial entry alone, whatever \<open>\<tau>\<close> is. With \<open>\<tau> \<le> 0\<close> and
  \<open>T > 0\<close> the loop is entered: the compact \<^verbatim>\<open>integrate_RK4\<close> (with a right-hand side of
  the state) and \<^verbatim>\<open>integrate_euler\<close> (with \<open>L \<noteq> 0\<close>) never return, since the time never
  reaches \<open>T\<close>; \<^verbatim>\<open>integrate_RK2\<close> and the first \<^verbatim>\<open>integrate_RK4\<close> raise
  \<^verbatim>\<open>AttributeError\<close> in the first iteration.
\<close>

theorem no_parameter_validation:
  fixes y :: "'a::real_vector"
  shows "(T \<le> 0 \<longrightarrow>
            integrate_euler self tau T = Some (Inr ([0], [theta0 self], [0]))
          \<and> integrate_RK2 y tau T = Some (Inr ([0], [y]))
          \<and> integrate_RK4_v1 y tau T = Some (Inr ([0], [y]))
          \<and> integrate_RK4 fn y tau T = Some (Inr ([0], [y])))
       \<and> (tau \<le> 0 \<and> 0 < T \<longrightarrow>
            integrate_RK4 (Fun1 f) y tau T = None
          \<and> (L self \<noteq> 0 \<longrightarrow> integrate_euler self tau T = None)
          \<and> integrate_RK2 y tau T = Some (Inl AttributeError)
          \<and> integrate_RK4_v1 y tau T = Some (Inl AttributeError))"
proof -
  have a: "integrate_euler self tau T = Some (Inr ([0], [theta0 self], [0]))
          \<and> integrate_RK2 y tau T = Some (Inr ([0], [y]))
          \<and> integrate_RK4_v1 y tau T = Some (Inr ([0], [y]))
          \<and> integrate_RK4 fn y tau T = Some (Inr ([0], [y]))"
    if "T \<le> 0"
    using that
    by (simp add: integrate_RK2_def integrate_RK4_def integrate_RK4_v1_def integrate_euler_def
          timestep_loop_not_entered euler_loop_not_entered)
  have b: "integrate_RK4 (Fun1 f) y tau T = None" if "tau \<le> 0" "0 < T"
    unfolding integrate_RK4_def
    using that by (intro timestep_loop_never_returns) (simp_all add: RK4_body_Fun1 [where t = 0])
  have c: "integrate_euler self tau T = None" if "tau \<le> 0" "0 < T" "L self \<noteq> 0"
    unfolding integrate_euler_def
    using that by (intro euler_loop_never_returns)
  have d: "integrate_RK2 y tau T = Some (Inl AttributeError)
          \<and> integrate_RK4_v1 y tau T = Some (Inl AttributeError)" if "0 < T"
    unfolding integrate_RK2_def integrate_RK4_v1_def
    using that
    by (simp add: timestep_loop_failing_body [where e = AttributeError]
          RK2_body_str RK4_v1_body_str)
  from a b c d show ?thesis by blast
qed

theorem no_parameter_validation_witness:
  "(0::real) \<le> 0 \<and> (-1::real) \<le> 0 \<and> (0::real) < 1
   \<and> L (init 10 (981/100) (981/100) ''Euler'') \<noteq> 0
   \<and> integrate_RK4 (Fun1 uminus) (1::real) (1/10) 0 = Some (Inr ([0], [1]))
   \<and> integrate_euler (init 10 (981/100) (981/100) ''Euler'') (1/10) 0
       = Some (Inr ([0], [radians 10], [0]))
   \<and> integrate_RK4 (Fun1 uminus) (1::real) (-1) 1 = None
   \<and> integrate_euler (init 10 (981/100) (981/100) ''Euler'') (-1) 1 = None
   \<and> integrate_RK2 (1::real) (-1) 1 = Some (Inl AttributeError)"
  using no_parameter_validation [where T = 0 and tau = "1/10" and y = "1::real"
          and fn = "Fun1 uminus" and self = "init 10 (981/100) (981/100) ''Euler''"]
        no_parameter_validation [where T = 1 and tau = "-1" and y = "1::real"
          and f = uminus and self = "init 10 (981/100) (981/100) ''Euler''"]
  by (simp add: init_def)

subsection \<open>The last step of \<^verbatim>\<open>integrate_euler\<close>\<close>

text \<open>
  The three Runge-Kutta drivers shorten their last step, under the comment "Make sure
  that the last step does not take us past T". The loop of \<^verbatim>\<open>integrate_euler\<close> has no
  such branch. The inputs below are dyadic, so IEEE doubles compute exactly the times
  that the model computes.
\<close>

text \<open>
  C1, at the failing input \<^verbatim>\<open>SimplePendulum(10).integrate_euler(0.75, 1)\<close>: the recorded
  times are 0, 0.75 and 1.5, so the run overshoots \<open>T = 1\<close> and its final time is not
  \<open>T\<close>. The compact \<^verbatim>\<open>integrate_RK4\<close>, with the same \<open>\<tau>\<close> and \<open>T\<close>, clamps its second step
  and records 0, 0.75 and 1.
\<close>

theorem euler_overshoots_at_failing_input:
  "map_option (map_sum id fst)
     (integrate_euler (init 10 (981/100) (981/100) ''Euler'') (3/4) 1)
   = Some (Inr [0, 3/4, 3/2])
   \<and> map_option (map_sum id fst) (integrate_RK4 (Fun1 uminus) (1::real) (3/4) 1)
   = Some (Inr [0, 3/4, 1])"
proof
  show "map_option (map_sum id fst)
          (integrate_euler (init 10 (981/100) (981/100) ''Euler'') (3/4) 1)
        = Some (Inr [0, 3/4, 3/2])"
    unfolding integrate_euler_def
    apply (subst euler_loop.simps, simp add: euler_body_def rhs_def init_def)
    apply (subst euler_loop.simps, simp add: euler_body_def rhs_def init_def)
    apply (subst euler_loop.simps, simp add: euler_body_def rhs_def init_def)
    done
  show "map_option (map_sum id fst) (integrate_RK4 (Fun1 uminus) (1::real) (3/4) 1)
        = Some (Inr [0, 3/4, 1])"
    unfolding integrate_RK4_def
    apply (subst timestep_loop.simps, simp add: RK4_body_def call1_def)
    apply (subst timestep_loop.simps, simp add: RK4_body_def call1_def)
    apply (subst timestep_loop.simps, simp)
    done
qed

text \<open>
  C6, at the failing input \<^verbatim>\<open>SimplePendulum(10).integrate_euler(0.5, 1.25)\<close>: the recorded
  times are 0, 0.5, 1 and 1.5. They are strictly increasing, there are
  \<open>\<lceil>1.25/0.5\<rceil> + 1 = 4\<close> of them and the first is 0, but the last exceeds \<open>T = 1.25\<close>. The
  compact \<^verbatim>\<open>integrate_RK4\<close>, with the same \<open>\<tau>\<close> and \<open>T\<close>, records 0, 0.5, 1 and 1.25.
\<close>

theorem euler_times_exceed_T_at_failing_input:
  "map_option (map_sum id fst)
     (integrate_euler (init 10 (981/100) (981/100) ''Euler'') (1/2) (5/4))
   = Some (Inr [0, 1/2, 1, 3/2])
   \<and> map_option (map_sum id fst) (integrate_RK4 (Fun1 uminus) (1::real) (1/2) (5/4))
   = Some (Inr [0, 1/2, 1, 5/4])"
proof
  show "map_option (map_sum id fst)
          (integrate_euler (init 10 (981/100) (981/100) ''Euler'') (1/2) (5/4))
        = Some (Inr [0, 1/2, 1, 3/2])"
    unfolding integrate_euler_def
    apply (subst euler_loop.simps, simp add: euler_body_def rhs_def init_def)
    apply (subst euler_loop.simps, simp add: euler_body_def rhs_def init_def)
    apply (subst euler_loop.simps, simp add: euler_body_def rhs_def init_def)
    apply (subst euler_loop.simps, simp add: euler_body_def rhs_def init_def)
    done
  show "map_option (map_sum id fst) (integrate_RK4 (Fun1 uminus) (1::real) (1/2) (5/4))
        = Some (Inr [0, 1/2, 1, 5/4])"
    unfolding integrate_RK4_def
    apply (subst timestep_loop.simps, simp add: RK4_body_def call1_def)
    apply (subst timestep_loop.simps, simp add: RK4_body_def call1_def)
    apply (subst timestep_loop.simps, simp add: RK4_body_def call1_def)
    apply (subst timestep_loop.simps, simp)
    done
qed

subsection \<open>The two scenarios\<close>

text \<open>
  C7. \<^verbatim>\<open>SimplePendulum(10).integrate_euler(0.1, 20)\<close>, with the default \<open>g = L = 9.81\<close>,
  returns three arrays of exactly 201 samples each; the first angle is \<open>radians(10)\<close>,
  which is 0.1745 to four decimal places, and the first angular velocity is 0.
\<close>

theorem pendulum_euler_scenario:
  "\<exists>ts ths oms.
      integrate_euler (init 10 (981/100) (981/100) ''Euler'') (1/10) 20
        = Some (Inr (ts, ths, oms))
      \<and> length ts = 201 \<and> length ths = 201 \<and> length oms = 201
      \<and> ths ! 0 = radians 10 \<and> \<bar>ths ! 0 - 1745/10000\<bar> < 5/100000 \<and> oms ! 0 = 0"
proof -
  let ?p = "init 10 (981/100) (981/100) ''Euler''"
  have nz: "L ?p \<noteq> 0" by (simp add: init_def)
  have th: "theta0 ?p = radians 10" by (simp add: init_def)
  obtain ts ths oms where r:
    "integrate_euler ?p (1/10) 20 = Some (Inr (0 # ts, theta0 ?p # ths, 0 # oms))"
    "length ts = nat \<lceil>(20::real) / (1/10)\<rceil>" "length ths = length ts" "length oms = length ts"
    using integrate_euler_run [of "1/10" ?p 20] nz by auto
  have "length ts = 200" using r(2) by simp
  with r radians_10 th show ?thesis
    by (intro exI[of _ "0 # ts"] exI[of _ "theta0 ?p # ths"] exI[of _ "0 # oms"]) simp
qed

text \<open>
  C9. The compact \<^verbatim>\<open>integrate_RK4\<close> with \<open>rhs(y) = -y\<close>, \<open>y0 = 1\<close>, \<open>\<tau> = 0.1\<close> and
  \<open>T = 1\<close> returns (in exact arithmetic, after ten steps that end at time 1) a final state
  within \<open>10\<^sup>-\<^sup>5\<close> of \<open>e\<^sup>-\<^sup>1\<close>.
\<close>

theorem RK4_decay_scenario:
  "\<exists>ts hs. integrate_RK4 (Fun1 uminus) (1::real) (1/10) 1 = Some (Inr (ts, hs))
      \<and> last ts = 1 \<and> \<bar>last hs - exp (-1)\<bar> < 1/100000"
  using RK4_decay_close by (simp add: RK4_decay_run)

end
